theory Spec2Isabelle
  imports Main "HOL-Library.Monad_Syntax"
begin

section \<open>Data model of \<^verbatim>\<open>logger.c\<close>\<close>

text \<open>
  The six members of \<^verbatim>\<open>ZlogLevel\<close> (\<^verbatim>\<open>logger.h\<close>). Every function of the
  library takes and stores levels as a C \<^verbatim>\<open>int\<close> and only compares them, never
  computes with them, so a level is an \<open>int\<close> here.
\<close>

definition ZLOG_TRACE :: int where "ZLOG_TRACE = 0"
definition ZLOG_DEBUG :: int where "ZLOG_DEBUG = 1"
definition ZLOG_INFO :: int where "ZLOG_INFO = 2"
definition ZLOG_WARN :: int where "ZLOG_WARN = 3"
definition ZLOG_ERR :: int where "ZLOG_ERR = 4"
definition ZLOG_FATAL :: int where "ZLOG_FATAL = 5"

text \<open>
  A non-null \<^verbatim>\<open>FILE *\<close> is either \<^verbatim>\<open>stderr\<close> or some other stream handle; a
  nullable \<^verbatim>\<open>FILE *\<close> is a \<open>FILE option\<close>, with \<open>None\<close> for \<^verbatim>\<open>NULL\<close>.
\<close>

datatype FILE = Stderr | Stream nat

text \<open>
  The library touches its streams through three libc functions and through the
  failure of its one \<^verbatim>\<open>assert\<close>, which writes a diagnostic on \<^verbatim>\<open>stderr\<close>
  before it calls \<^verbatim>\<open>abort()\<close>. All of these are recorded in order. The variadic
  arguments are handed to \<^verbatim>\<open>vfprintf\<close> untouched, so their type \<open>'a\<close> is left
  open.
\<close>

datatype 'a libc_call = Vfprintf FILE string 'a | Fflush FILE | Fclose FILE | Assert_fail

text \<open>
  The three globals \<^verbatim>\<open>g_lock\<close>, \<^verbatim>\<open>g_output\<close>, \<^verbatim>\<open>g_level\<close>, and the libc
  calls made so far.
\<close>

record 'a world =
  g_lock :: int
  g_output :: "FILE option"
  g_level :: int
  libc :: "'a libc_call list"

text \<open>The static initialisers: lock free, no stream, level \<^verbatim>\<open>ZLOG_INFO\<close>.\<close>

definition initial_state :: "'a world" where
  "initial_state = \<lparr>g_lock = 0, g_output = None, g_level = ZLOG_INFO, libc = []\<rparr>"

text \<open>
  A call of an emission function either returns or dies in \<^verbatim>\<open>assert\<close>; both carry
  the world at that moment. A call that never returns (the spin loop) is \<open>None\<close>.
  \<open>Aborts\<close> is the end of the process in \<^verbatim>\<open>abort()\<close>; the diagnostic that the
  failing \<^verbatim>\<open>assert\<close> wrote before it is in the record of the world it carries.
\<close>

datatype 'w outcome = Returns 'w | Aborts 'w

fun world_of :: "'w outcome \<Rightarrow> 'w" where
  "world_of (Returns w) = w"
| "world_of (Aborts w) = w"

section \<open>Spinlock\<close>

text \<open>
  \<^verbatim>\<open>spinlock_lock\<close> is only ever called on \<^verbatim>\<open>&g_lock\<close>. The model is of one
  thread: between two iterations of the loop nobody else changes the flag, and
  \<^verbatim>\<open>sched_yield\<close> has no effect on the world. The compare-and-swap succeeds when
  the flag is 0 and sets it to 1; otherwise the loop goes round again.
\<close>

partial_function (option) spinlock_lock :: "'a world \<Rightarrow> 'a world option" where
  "spinlock_lock s = (if g_lock s = 0 then Some (s\<lparr>g_lock := 1\<rparr>) else spinlock_lock s)"

definition spinlock_unlock :: "'a world \<Rightarrow> 'a world" where
  "spinlock_unlock s = s\<lparr>g_lock := 0\<rparr>"

section \<open>Helper functions\<close>

definition get_output :: "'a world \<Rightarrow> FILE" where
  "get_output s = (case g_output s of Some f \<Rightarrow> f | None \<Rightarrow> Stderr)"

definition validate_level :: "int \<Rightarrow> int" where
  "validate_level level =
     (if level \<ge> ZLOG_TRACE \<and> level \<le> ZLOG_FATAL then level else ZLOG_INFO)"

section \<open>Public API\<close>

definition zlog_init :: "FILE option \<Rightarrow> int \<Rightarrow> 'a world \<Rightarrow> 'a world option" where
  "zlog_init out level s = do {
     s1 \<leftarrow> spinlock_lock s;
     let s2 = s1\<lparr>g_output := Some (case out of Some f \<Rightarrow> f | None \<Rightarrow> Stderr)\<rparr>;
     let s3 = s2\<lparr>g_level := validate_level level\<rparr>;
     Some (spinlock_unlock s3)
   }"

definition zlog_shutdown :: "'a world \<Rightarrow> 'a world option" where
  "zlog_shutdown s = do {
     s1 \<leftarrow> spinlock_lock s;
     let s2 = (case g_output s1 of
                 Some f \<Rightarrow> if f \<noteq> Stderr then s1\<lparr>libc := libc s1 @ [Fclose f]\<rparr> else s1
               | None \<Rightarrow> s1);
     let s3 = s2\<lparr>g_output := None\<rparr>;
     Some (spinlock_unlock s3)
   }"

definition zlog_get_level :: "'a world \<Rightarrow> int" where
  "zlog_get_level s = g_level s"

definition zlog_set_level :: "int \<Rightarrow> 'a world \<Rightarrow> 'a world option" where
  "zlog_set_level level s = do {
     s1 \<leftarrow> spinlock_lock s;
     let s2 = s1\<lparr>g_level := validate_level level\<rparr>;
     Some (spinlock_unlock s2)
   }"

section \<open>Logging functions\<close>

text \<open>
  \<open>ndebug\<close> says whether the library was compiled with \<^verbatim>\<open>NDEBUG\<close>, which turns
  the \<^verbatim>\<open>assert\<close> of \<^verbatim>\<open>zlog_write\<close> into nothing.
\<close>

definition zlog_write ::
  "bool \<Rightarrow> int \<Rightarrow> string \<Rightarrow> 'a \<Rightarrow> 'a world \<Rightarrow> 'a world outcome option" where
  "zlog_write ndebug level fmt args s =
     (if \<not> ndebug \<and> g_output s = None
      then Some (Aborts (s\<lparr>libc := libc s @ [Assert_fail]\<rparr>))
      else do {
        s1 \<leftarrow> spinlock_lock s;
        let s2 = (case g_output s1 of
                    Some f \<Rightarrow>
                      if level \<ge> g_level s1
                      then s1\<lparr>libc := libc s1 @ [Vfprintf f fmt args, Fflush f]\<rparr>
                      else s1
                  | None \<Rightarrow> s1);
        Some (Returns (spinlock_unlock s2))
      })"

definition zlog_trace :: "bool \<Rightarrow> string \<Rightarrow> 'a \<Rightarrow> 'a world \<Rightarrow> 'a world outcome option" where
  "zlog_trace ndebug fmt args s =
     (if ZLOG_TRACE < g_level s then Some (Returns s)
      else zlog_write ndebug ZLOG_TRACE fmt args s)"

definition zlog_debug :: "bool \<Rightarrow> string \<Rightarrow> 'a \<Rightarrow> 'a world \<Rightarrow> 'a world outcome option" where
  "zlog_debug ndebug fmt args s =
     (if ZLOG_DEBUG < g_level s then Some (Returns s)
      else zlog_write ndebug ZLOG_DEBUG fmt args s)"

definition zlog_info :: "bool \<Rightarrow> string \<Rightarrow> 'a \<Rightarrow> 'a world \<Rightarrow> 'a world outcome option" where
  "zlog_info ndebug fmt args s =
     (if ZLOG_INFO < g_level s then Some (Returns s)
      else zlog_write ndebug ZLOG_INFO fmt args s)"

definition zlog_warn :: "bool \<Rightarrow> string \<Rightarrow> 'a \<Rightarrow> 'a world \<Rightarrow> 'a world outcome option" where
  "zlog_warn ndebug fmt args s =
     (if ZLOG_WARN < g_level s then Some (Returns s)
      else zlog_write ndebug ZLOG_WARN fmt args s)"

definition zlog_err :: "bool \<Rightarrow> string \<Rightarrow> 'a \<Rightarrow> 'a world \<Rightarrow> 'a world outcome option" where
  "zlog_err ndebug fmt args s =
     (if ZLOG_ERR < g_level s then Some (Returns s)
      else zlog_write ndebug ZLOG_ERR fmt args s)"

definition zlog_fatal :: "bool \<Rightarrow> string \<Rightarrow> 'a \<Rightarrow> 'a world \<Rightarrow> 'a world outcome option" where
  "zlog_fatal ndebug fmt args s =
     (if ZLOG_FATAL < g_level s then Some (Returns s)
      else zlog_write ndebug ZLOG_FATAL fmt args s)"

section \<open>Talking about all six emission functions at once\<close>

datatype emission = Trace | Debug | Info | Warn | Err | Fatal

text \<open>The severity each emission function compares and passes on.\<close>

fun severity :: "emission \<Rightarrow> int" where
  "severity Trace = ZLOG_TRACE"
| "severity Debug = ZLOG_DEBUG"
| "severity Info = ZLOG_INFO"
| "severity Warn = ZLOG_WARN"
| "severity Err = ZLOG_ERR"
| "severity Fatal = ZLOG_FATAL"

fun emit :: "emission \<Rightarrow> bool \<Rightarrow> string \<Rightarrow> 'a \<Rightarrow> 'a world \<Rightarrow> 'a world outcome option" where
  "emit Trace = zlog_trace"
| "emit Debug = zlog_debug"
| "emit Info = zlog_info"
| "emit Warn = zlog_warn"
| "emit Err = zlog_err"
| "emit Fatal = zlog_fatal"

text \<open>
  The bytes a stream has received, given what \<^verbatim>\<open>vfprintf\<close> renders from a format
  and its arguments, and given the diagnostic text that a failing \<^verbatim>\<open>assert\<close>
  prints on \<^verbatim>\<open>stderr\<close>: \<^verbatim>\<open>fflush\<close> and \<^verbatim>\<open>fclose\<close> add none.
\<close>

fun bytes_written ::
  "(string \<Rightarrow> 'a \<Rightarrow> string) \<Rightarrow> string \<Rightarrow> FILE \<Rightarrow> 'a libc_call list \<Rightarrow> string" where
  "bytes_written render diag f [] = []"
| "bytes_written render diag f (Vfprintf g fmt args # cs) =
     (if g = f then render fmt args else []) @ bytes_written render diag f cs"
| "bytes_written render diag f (Fflush g # cs) = bytes_written render diag f cs"
| "bytes_written render diag f (Fclose g # cs) = bytes_written render diag f cs"
| "bytes_written render diag f (Assert_fail # cs) =
     (if f = Stderr then diag else []) @ bytes_written render diag f cs"

section \<open>Histories of API calls\<close>

text \<open>
  One call of a public function. \<^verbatim>\<open>zlog_get_level\<close> only reads; the functions
  that return \<^verbatim>\<open>void\<close> have no way to report an error, so when they return at
  all they return normally.
\<close>

datatype 'a api_call =
    Call_init "FILE option" int
  | Call_shutdown
  | Call_get_level
  | Call_set_level int
  | Call_emit emission string 'a

fun exec :: "bool \<Rightarrow> 'a api_call \<Rightarrow> 'a world \<Rightarrow> 'a world outcome option" where
  "exec ndebug (Call_init out level) s = map_option Returns (zlog_init out level s)"
| "exec ndebug Call_shutdown s = map_option Returns (zlog_shutdown s)"
| "exec ndebug Call_get_level s = Some (Returns s)"
| "exec ndebug (Call_set_level level) s = map_option Returns (zlog_set_level level s)"
| "exec ndebug (Call_emit e fmt args) s = emit e ndebug fmt args s"

text \<open>A program making the calls one after the other; an abort ends it.\<close>

fun run :: "bool \<Rightarrow> 'a api_call list \<Rightarrow> 'a world \<Rightarrow> 'a world outcome option" where
  "run ndebug [] s = Some (Returns s)"
| "run ndebug (c # cs) s =
     (case exec ndebug c s of
        Some (Returns s') \<Rightarrow> run ndebug cs s'
      | Some (Aborts s') \<Rightarrow> Some (Aborts s')
      | None \<Rightarrow> None)"

section \<open>The spinlock in a single thread\<close>

lemmas ZlogLevel_defs =
  ZLOG_TRACE_def ZLOG_DEBUG_def ZLOG_INFO_def ZLOG_WARN_def ZLOG_ERR_def ZLOG_FATAL_def

lemma spinlock_lock_free: "g_lock s = 0 \<Longrightarrow> spinlock_lock s = Some (s\<lparr>g_lock := 1\<rparr>)"
  by (subst spinlock_lock.simps) simp

lemma spinlock_lock_returns_free: "spinlock_lock s = Some s' \<Longrightarrow> g_lock s = 0"
  by (rule spinlock_lock.raw_induct [where P = "\<lambda>s s'. g_lock s = 0"])
     (auto split: if_splits)

lemma spinlock_lock_held: "g_lock s \<noteq> 0 \<Longrightarrow> spinlock_lock s = None"
  using spinlock_lock_returns_free [of s] by (cases "spinlock_lock s") auto

section \<open>What each function does when the lock is free\<close>

lemma zlog_init_free:
  "g_lock s = 0 \<Longrightarrow>
   zlog_init out level s =
     Some (s\<lparr>g_output := Some (case out of Some f \<Rightarrow> f | None \<Rightarrow> Stderr),
             g_level := validate_level level\<rparr>)"
  by (simp add: zlog_init_def spinlock_lock_free spinlock_unlock_def)

lemma zlog_set_level_free:
  "g_lock s = 0 \<Longrightarrow> zlog_set_level level s = Some (s\<lparr>g_level := validate_level level\<rparr>)"
  by (simp add: zlog_set_level_def spinlock_lock_free spinlock_unlock_def)

lemma zlog_shutdown_free:
  "g_lock s = 0 \<Longrightarrow>
   zlog_shutdown s =
     Some (s\<lparr>g_output := None,
             libc := libc s @ (case g_output s of
                                 Some f \<Rightarrow> if f \<noteq> Stderr then [Fclose f] else []
                               | None \<Rightarrow> [])\<rparr>)"
  by (simp add: zlog_shutdown_def spinlock_lock_free spinlock_unlock_def Let_def
           split: option.splits)

lemma zlog_write_free:
  "g_lock s = 0 \<Longrightarrow>
   zlog_write ndebug level fmt args s =
     Some (case g_output s of
             None \<Rightarrow>
               if ndebug then Returns s else Aborts (s\<lparr>libc := libc s @ [Assert_fail]\<rparr>)
           | Some f \<Rightarrow>
               Returns (if g_level s \<le> level
                        then s\<lparr>libc := libc s @ [Vfprintf f fmt args, Fflush f]\<rparr>
                        else s))"
  by (simp add: zlog_write_def spinlock_lock_free spinlock_unlock_def Let_def
           split: option.splits)

lemma emit_unfold:
  "emit e ndebug fmt args s =
     (if severity e < g_level s then Some (Returns s)
      else zlog_write ndebug (severity e) fmt args s)"
  by (cases e)
     (simp_all add: zlog_trace_def zlog_debug_def zlog_info_def zlog_warn_def zlog_err_def
        zlog_fatal_def)

text \<open>A call that returns found the lock free, since it had to take it.\<close>

lemma zlog_init_returns: "zlog_init out level s = Some s' \<Longrightarrow> g_lock s = 0"
  by (auto simp: zlog_init_def bind_eq_Some_conv dest: spinlock_lock_returns_free)

lemma zlog_set_level_returns: "zlog_set_level level s = Some s' \<Longrightarrow> g_lock s = 0"
  by (auto simp: zlog_set_level_def bind_eq_Some_conv dest: spinlock_lock_returns_free)

lemma zlog_shutdown_returns: "zlog_shutdown s = Some s' \<Longrightarrow> g_lock s = 0"
  by (auto simp: zlog_shutdown_def bind_eq_Some_conv dest: spinlock_lock_returns_free)

lemma bytes_written_append:
  "bytes_written render diag f (xs @ ys)
     = bytes_written render diag f xs @ bytes_written render diag f ys"
  by (induction render diag f xs rule: bytes_written.induct) simp_all

section \<open>Invariants of single calls and of histories\<close>

text \<open>With the lock free, every call comes to an end and leaves the lock free.\<close>

lemma exec_lock_free:
  "g_lock s = 0 \<Longrightarrow> \<exists>r. exec ndebug c s = Some r \<and> g_lock (world_of r) = 0"
  by (cases c)
     (auto simp: zlog_init_free zlog_shutdown_free zlog_set_level_free emit_unfold
        zlog_write_free split: option.splits)

lemma exec_level:
  "exec ndebug c s = Some r \<Longrightarrow> ZLOG_TRACE \<le> g_level s \<and> g_level s \<le> ZLOG_FATAL \<Longrightarrow>
   ZLOG_TRACE \<le> g_level (world_of r) \<and> g_level (world_of r) \<le> ZLOG_FATAL"
proof (cases c)
  case (Call_init out level)
  assume r: "exec ndebug c s = Some r"
  with Call_init obtain s' where s': "zlog_init out level s = Some s'" "r = Returns s'"
    by auto
  from s'(1) have "g_lock s = 0" by (rule zlog_init_returns)
  with s' show ?thesis
    by (auto simp: zlog_init_free validate_level_def ZlogLevel_defs)
next
  case Call_shutdown
  assume r: "exec ndebug c s = Some r"
    and v: "ZLOG_TRACE \<le> g_level s \<and> g_level s \<le> ZLOG_FATAL"
  with Call_shutdown obtain s' where s': "zlog_shutdown s = Some s'" "r = Returns s'"
    by auto
  from s'(1) have "g_lock s = 0" by (rule zlog_shutdown_returns)
  with s' v show ?thesis
    by (auto simp: zlog_shutdown_free)
next
  case Call_get_level
  assume "exec ndebug c s = Some r"
    and "ZLOG_TRACE \<le> g_level s \<and> g_level s \<le> ZLOG_FATAL"
  with Call_get_level show ?thesis by auto
next
  case (Call_set_level level)
  assume r: "exec ndebug c s = Some r"
  with Call_set_level obtain s' where s': "zlog_set_level level s = Some s'" "r = Returns s'"
    by auto
  from s'(1) have "g_lock s = 0" by (rule zlog_set_level_returns)
  with s' show ?thesis
    by (auto simp: zlog_set_level_free validate_level_def ZlogLevel_defs)
next
  case (Call_emit e fmt args)
  assume r: "exec ndebug c s = Some r"
    and v: "ZLOG_TRACE \<le> g_level s \<and> g_level s \<le> ZLOG_FATAL"
  show ?thesis
  proof (cases "severity e < g_level s")
    case True
    with r v Call_emit show ?thesis by (auto simp: emit_unfold)
  next
    case False
    with r Call_emit have w: "zlog_write ndebug (severity e) fmt args s = Some r"
      by (simp add: emit_unfold)
    show ?thesis
    proof (cases "\<not> ndebug \<and> g_output s = None")
      case True
      with w v show ?thesis by (auto simp: zlog_write_def)
    next
      case False
      with w obtain s1 where "spinlock_lock s = Some s1"
        by (auto simp: zlog_write_def bind_eq_Some_conv)
      then have "g_lock s = 0" by (rule spinlock_lock_returns_free)
      with w v show ?thesis
        by (auto simp: zlog_write_free split: option.splits if_splits)
    qed
  qed
qed

lemma run_lock_free:
  "g_lock s = 0 \<Longrightarrow> \<exists>r. run ndebug cs s = Some r \<and> g_lock (world_of r) = 0"
proof (induction cs arbitrary: s)
  case Nil
  then show ?case by simp
next
  case (Cons c cs)
  from exec_lock_free [OF Cons.prems, of ndebug c]
  obtain r where r: "exec ndebug c s = Some r" "g_lock (world_of r) = 0" by blast
  show ?case
  proof (cases r)
    case (Returns s')
    with r Cons.IH [of s'] show ?thesis by simp
  next
    case (Aborts s')
    with r show ?thesis by simp
  qed
qed

lemma run_level:
  "run ndebug cs s = Some r \<Longrightarrow> ZLOG_TRACE \<le> g_level s \<and> g_level s \<le> ZLOG_FATAL \<Longrightarrow>
   ZLOG_TRACE \<le> g_level (world_of r) \<and> g_level (world_of r) \<le> ZLOG_FATAL"
proof (induction cs arbitrary: s)
  case Nil
  then show ?case by auto
next
  case (Cons c cs)
  from Cons.prems(1) obtain r1 where r1: "exec ndebug c s = Some r1"
    by (cases "exec ndebug c s") auto
  from exec_level [OF r1 Cons.prems(2)]
  have v: "ZLOG_TRACE \<le> g_level (world_of r1) \<and> g_level (world_of r1) \<le> ZLOG_FATAL" .
  show ?case
  proof (cases r1)
    case (Returns s')
    with r1 Cons.prems(1) have "run ndebug cs s' = Some r" by simp
    from Cons.IH [OF this] v Returns show ?thesis by simp
  next
    case (Aborts s')
    with r1 Cons.prems(1) have "r = Aborts s'" by simp
    with v Aborts show ?thesis by simp
  qed
qed

section \<open>Properties of the logger\<close>

subsection \<open>C1: the state after shutdown\<close>

text \<open>
  C1 as stated fails. \<^verbatim>\<open>zlog_shutdown\<close> never assigns \<^verbatim>\<open>g_level\<close>: after
  \<^verbatim>\<open>zlog_init(f, ZLOG_INFO)\<close>, \<^verbatim>\<open>zlog_set_level(ZLOG_WARN)\<close> and
  \<^verbatim>\<open>zlog_shutdown()\<close> the level still reads \<^verbatim>\<open>ZLOG_WARN\<close>. A following
  \<^verbatim>\<open>zlog_fatal("boom")\<close> (assertions compiled out) makes no libc call at all,
  so emission does not go to \<^verbatim>\<open>stderr\<close> either: the only call on record is the
  \<^verbatim>\<open>fclose\<close> of the shutdown.
\<close>

theorem shutdown_keeps_level_counterexample:
  "run True [Call_init (Some (Stream 1)) ZLOG_INFO, Call_set_level ZLOG_WARN, Call_shutdown,
             Call_emit Fatal ''boom'' []] (initial_state :: int list world)
     = Some (Returns (initial_state\<lparr>g_level := ZLOG_WARN, libc := [Fclose (Stream 1)]\<rparr>))
   \<and> zlog_get_level ((initial_state :: int list world)
        \<lparr>g_level := ZLOG_WARN, libc := [Fclose (Stream 1)]\<rparr>) = ZLOG_WARN
   \<and> ZLOG_WARN \<noteq> ZLOG_INFO"
  by (simp add: initial_state_def zlog_init_free zlog_set_level_free zlog_shutdown_free
        validate_level_def zlog_get_level_def zlog_fatal_def zlog_write_free ZlogLevel_defs)

text \<open>
  C1, amended: after any history of API calls that ran to its end, \<^verbatim>\<open>zlog_shutdown\<close>
  returns, \<^verbatim>\<open>g_output\<close> is \<^verbatim>\<open>NULL\<close> (which \<^verbatim>\<open>get_output\<close> reads as
  \<^verbatim>\<open>stderr\<close>), and \<^verbatim>\<open>zlog_get_level\<close> returns the level that was stored before the
  shutdown, unchanged.
\<close>

theorem shutdown_keeps_level:
  assumes "run ndebug cs initial_state = Some (Returns s)"
  shows "\<exists>s'. zlog_shutdown s = Some s' \<and> g_output s' = None \<and> get_output s' = Stderr
           \<and> zlog_get_level s' = zlog_get_level s"
proof -
  have "g_lock (initial_state :: 'a world) = 0" by (simp add: initial_state_def)
  from run_lock_free [OF this, of ndebug cs] assms have "g_lock s = 0" by auto
  then show ?thesis by (simp add: zlog_shutdown_free get_output_def zlog_get_level_def)
qed

theorem shutdown_keeps_level_witness:
  "run False [Call_init (Some (Stream 1)) ZLOG_DEBUG, Call_set_level ZLOG_ERR]
     (initial_state :: int list world)
     = Some (Returns \<lparr>g_lock = 0, g_output = Some (Stream 1), g_level = ZLOG_ERR, libc = []\<rparr>)
   \<and> (\<exists>s'. zlog_shutdown (\<lparr>g_lock = 0, g_output = Some (Stream 1), g_level = ZLOG_ERR,
                libc = []\<rparr> :: int list world) = Some s'
          \<and> g_output s' = None \<and> get_output s' = Stderr \<and> zlog_get_level s' = ZLOG_ERR)"
proof -
  let ?s = "\<lparr>g_lock = 0, g_output = Some (Stream 1), g_level = ZLOG_ERR, libc = []\<rparr>
              :: int list world"
  have r: "run False [Call_init (Some (Stream 1)) ZLOG_DEBUG, Call_set_level ZLOG_ERR]
             (initial_state :: int list world) = Some (Returns ?s)"
    by (simp add: initial_state_def zlog_init_free zlog_set_level_free validate_level_def
          ZlogLevel_defs)
  from shutdown_keeps_level [OF r] r show ?thesis by (simp add: zlog_get_level_def)
qed

subsection \<open>C2: filtering and the single write\<close>

text \<open>
  C2: with a sink set (after \<^verbatim>\<open>zlog_init\<close>) and the lock free, an emission whose
  severity is below the stored level returns with the world unchanged, so the sink
  receives nothing; an emission at or above the level returns after exactly one
  \<^verbatim>\<open>vfprintf\<close> on the sink with the caller's format and arguments, followed by
  \<^verbatim>\<open>fflush\<close>, so the sink receives what \<^verbatim>\<open>vfprintf\<close> renders and nothing more.
\<close>

theorem emission_filter_and_write:
  assumes "g_lock s = 0" and "g_output s = Some out"
  shows "(severity e < g_level s \<longrightarrow> emit e ndebug fmt args s = Some (Returns s))
       \<and> (g_level s \<le> severity e \<longrightarrow>
            emit e ndebug fmt args s
              = Some (Returns (s\<lparr>libc := libc s @ [Vfprintf out fmt args, Fflush out]\<rparr>))
          \<and> bytes_written render diag out (libc s @ [Vfprintf out fmt args, Fflush out])
              = bytes_written render diag out (libc s) @ render fmt args)"
  using assms by (simp add: emit_unfold zlog_write_free bytes_written_append)

theorem emission_filter_and_write_witness:
  "emit Info False ''ignored'' []
     (\<lparr>g_lock = 0, g_output = Some (Stream 1), g_level = ZLOG_WARN, libc = []\<rparr>
        :: int list world)
     = Some (Returns \<lparr>g_lock = 0, g_output = Some (Stream 1), g_level = ZLOG_WARN, libc = []\<rparr>)
   \<and> emit Fatal False ''boom'' []
     (\<lparr>g_lock = 0, g_output = Some (Stream 1), g_level = ZLOG_WARN, libc = []\<rparr>
        :: int list world)
     = Some (Returns \<lparr>g_lock = 0, g_output = Some (Stream 1), g_level = ZLOG_WARN,
               libc = [Vfprintf (Stream 1) ''boom'' [], Fflush (Stream 1)]\<rparr>)
   \<and> bytes_written (\<lambda>fmt args. fmt) ''Assertion failed'' (Stream 1)
        [Vfprintf (Stream 1) ''boom'' ([] :: int list), Fflush (Stream 1)] = ''boom''"
  using
    emission_filter_and_write
      [of "\<lparr>g_lock = 0, g_output = Some (Stream 1), g_level = ZLOG_WARN, libc = []\<rparr>
             :: int list world" "Stream 1" Info False "''ignored''" "[]" "\<lambda>fmt args. fmt"
          "''Assertion failed''"]
    emission_filter_and_write
      [of "\<lparr>g_lock = 0, g_output = Some (Stream 1), g_level = ZLOG_WARN, libc = []\<rparr>
             :: int list world" "Stream 1" Fatal False "''boom''" "[]" "\<lambda>fmt args. fmt"
          "''Assertion failed''"]
  by (simp add: ZlogLevel_defs)

subsection \<open>C3: emission before the first init\<close>

text \<open>
  C3 as stated fails. In the initial state the level is \<^verbatim>\<open>ZLOG_INFO\<close>, so
  \<^verbatim>\<open>zlog_trace\<close> leaves through its first line, before \<^verbatim>\<open>zlog_write\<close> and its
  \<^verbatim>\<open>assert\<close> are reached: with assertions enabled the call returns silently.
\<close>

theorem emission_before_init_counterexample:
  "emit Trace False ''x'' [] (initial_state :: int list world) = Some (Returns initial_state)
   \<and> emit Trace False ''x'' [] (initial_state :: int list world)
       \<noteq> Some (Aborts (initial_state\<lparr>libc := [Assert_fail]\<rparr>))"
  by (simp add: zlog_trace_def initial_state_def ZlogLevel_defs)

text \<open>
  C3, amended: in a build with assertions enabled, an emission called while no sink is
  set aborts when its severity is at or above the stored level and returns silently
  when it is below. Returning, it leaves the world untouched; aborting, it adds only
  the diagnostic of the failed \<^verbatim>\<open>assert\<close>. Either way the library makes no
  \<^verbatim>\<open>vfprintf\<close> call, so the message reaches no stream.
\<close>

theorem emission_before_init:
  assumes "g_output s = None" and "g_lock s = 0"
  shows "emit e False fmt args s
           = Some (if severity e < g_level s then Returns s
                   else Aborts (s\<lparr>libc := libc s @ [Assert_fail]\<rparr>))"
  using assms by (simp add: emit_unfold zlog_write_free)

theorem emission_before_init_witness:
  "g_output (initial_state :: int list world) = None
   \<and> g_lock (initial_state :: int list world) = 0
   \<and> emit Debug False ''x'' [] (initial_state :: int list world) = Some (Returns initial_state)
   \<and> emit Warn False ''x'' [] (initial_state :: int list world)
       = Some (Aborts (initial_state\<lparr>libc := [Assert_fail]\<rparr>))"
  using emission_before_init [of "initial_state :: int list world" Debug "''x''" "[]"]
    emission_before_init [of "initial_state :: int list world" Warn "''x''" "[]"]
  by (simp add: initial_state_def ZlogLevel_defs)

subsection \<open>C5: levels out of range\<close>

text \<open>
  C5: for a level below \<^verbatim>\<open>ZLOG_TRACE\<close> or above \<^verbatim>\<open>ZLOG_FATAL\<close>, both
  \<^verbatim>\<open>zlog_set_level\<close> and \<^verbatim>\<open>zlog_init\<close> return normally and store
  \<^verbatim>\<open>ZLOG_INFO\<close>.
\<close>

theorem invalid_level_becomes_info:
  assumes "level < ZLOG_TRACE \<or> ZLOG_FATAL < level" and "g_lock s = 0"
  shows "zlog_set_level level s = Some (s\<lparr>g_level := ZLOG_INFO\<rparr>)
       \<and> zlog_init out level s
           = Some (s\<lparr>g_output := Some (case out of Some f \<Rightarrow> f | None \<Rightarrow> Stderr),
                     g_level := ZLOG_INFO\<rparr>)"
  using assms
  by (auto simp: zlog_set_level_free zlog_init_free validate_level_def)

theorem invalid_level_becomes_info_witness:
  "((-1 :: int) < ZLOG_TRACE \<or> ZLOG_FATAL < (-1 :: int))
   \<and> zlog_set_level (-1) (\<lparr>g_lock = 0, g_output = None, g_level = ZLOG_ERR, libc = []\<rparr>
        :: int list world)
       = Some \<lparr>g_lock = 0, g_output = None, g_level = ZLOG_INFO, libc = []\<rparr>
   \<and> zlog_init (Some (Stream 7)) (-1)
        (\<lparr>g_lock = 0, g_output = None, g_level = ZLOG_ERR, libc = []\<rparr> :: int list world)
       = Some \<lparr>g_lock = 0, g_output = Some (Stream 7), g_level = ZLOG_INFO, libc = []\<rparr>"
  using invalid_level_becomes_info
    [of "-1" "\<lparr>g_lock = 0, g_output = None, g_level = ZLOG_ERR, libc = []\<rparr> :: int list world"
        "Some (Stream 7)"]
  by (simp add: ZLOG_TRACE_def)

subsection \<open>C6: set_level then get_level\<close>

text \<open>
  C6: for a level \<open>L\<close> from \<^verbatim>\<open>ZLOG_TRACE\<close> to \<^verbatim>\<open>ZLOG_FATAL\<close> and any state,
  \<^verbatim>\<open>zlog_set_level(L)\<close> returns when the lock is free, and whenever it returns
  \<^verbatim>\<open>zlog_get_level()\<close> gives \<open>L\<close>.
\<close>

theorem set_level_get_level:
  assumes "ZLOG_TRACE \<le> L" and "L \<le> ZLOG_FATAL"
  shows "(g_lock s = 0 \<longrightarrow> (\<exists>s'. zlog_set_level L s = Some s'))
       \<and> (\<forall>s'. zlog_set_level L s = Some s' \<longrightarrow> zlog_get_level s' = L)"
proof (intro conjI allI impI)
  assume "g_lock s = 0"
  then show "\<exists>s'. zlog_set_level L s = Some s'" by (simp add: zlog_set_level_free)
next
  fix s' assume r: "zlog_set_level L s = Some s'"
  then have "g_lock s = 0" by (rule zlog_set_level_returns)
  with r assms show "zlog_get_level s' = L"
    by (auto simp: zlog_set_level_free validate_level_def zlog_get_level_def)
qed

theorem set_level_get_level_witness:
  "ZLOG_TRACE \<le> ZLOG_ERR \<and> ZLOG_ERR \<le> ZLOG_FATAL
   \<and> (\<exists>s'. zlog_set_level ZLOG_ERR (initial_state :: int list world) = Some s'
          \<and> zlog_get_level s' = ZLOG_ERR)"
  using set_level_get_level [of ZLOG_ERR "initial_state :: int list world"]
  by (auto simp: ZlogLevel_defs initial_state_def)

subsection \<open>C7: shutdown closes at most once\<close>

text \<open>
  C7: \<^verbatim>\<open>zlog_shutdown\<close> calls \<^verbatim>\<open>fclose\<close> on the sink exactly when a sink is set
  and is not \<^verbatim>\<open>stderr\<close>, makes no other libc call, sets \<^verbatim>\<open>g_output\<close> to
  \<^verbatim>\<open>NULL\<close> and leaves level and lock as they were; a second \<^verbatim>\<open>zlog_shutdown\<close>
  right after returns the very same world, so it closes nothing.
\<close>

theorem shutdown_closes_once:
  assumes "g_lock s = 0"
  shows "\<exists>s'. zlog_shutdown s = Some s'
           \<and> libc s' = libc s @ (if g_output s \<noteq> None \<and> g_output s \<noteq> Some Stderr
                                  then [Fclose (the (g_output s))] else [])
           \<and> g_output s' = None \<and> g_level s' = g_level s \<and> g_lock s' = 0
           \<and> zlog_shutdown s' = Some s'"
  using assms by (auto simp: zlog_shutdown_free split: option.splits)

theorem shutdown_closes_once_witness:
  "g_lock (\<lparr>g_lock = 0, g_output = Some (Stream 3), g_level = ZLOG_INFO, libc = []\<rparr>
             :: int list world) = 0
   \<and> zlog_shutdown (\<lparr>g_lock = 0, g_output = Some (Stream 3), g_level = ZLOG_INFO, libc = []\<rparr>
        :: int list world)
       = Some \<lparr>g_lock = 0, g_output = None, g_level = ZLOG_INFO, libc = [Fclose (Stream 3)]\<rparr>
   \<and> zlog_shutdown (\<lparr>g_lock = 0, g_output = None, g_level = ZLOG_INFO,
        libc = [Fclose (Stream 3)]\<rparr> :: int list world)
       = Some \<lparr>g_lock = 0, g_output = None, g_level = ZLOG_INFO, libc = [Fclose (Stream 3)]\<rparr>"
  using shutdown_closes_once
    [of "\<lparr>g_lock = 0, g_output = Some (Stream 3), g_level = ZLOG_INFO, libc = []\<rparr>
           :: int list world"]
  by (auto simp: zlog_shutdown_free)

subsection \<open>C8: the stored level is always a member of ZlogLevel\<close>

text \<open>
  C8: the stored level lies between \<^verbatim>\<open>ZLOG_TRACE\<close> and \<^verbatim>\<open>ZLOG_FATAL\<close> in the
  initial state; every public call, with any arguments, that starts from such a level
  ends (by return or by abort) with such a level; and every history of public calls
  from the initial state comes to an end with such a level.
\<close>

theorem threshold_always_valid:
  "ZLOG_TRACE \<le> g_level (initial_state :: 'a world)
   \<and> g_level (initial_state :: 'a world) \<le> ZLOG_FATAL
   \<and> (\<forall>(s :: 'a world) c r.
         ZLOG_TRACE \<le> g_level s \<and> g_level s \<le> ZLOG_FATAL \<and> exec ndebug c s = Some r \<longrightarrow>
         ZLOG_TRACE \<le> g_level (world_of r) \<and> g_level (world_of r) \<le> ZLOG_FATAL)
   \<and> (\<forall>cs. \<exists>r. run ndebug cs (initial_state :: 'a world) = Some r
         \<and> ZLOG_TRACE \<le> g_level (world_of r) \<and> g_level (world_of r) \<le> ZLOG_FATAL)"
proof (intro conjI allI impI)
  show i1: "ZLOG_TRACE \<le> g_level (initial_state :: 'a world)"
    by (simp add: initial_state_def ZlogLevel_defs)
  show i2: "g_level (initial_state :: 'a world) \<le> ZLOG_FATAL"
    by (simp add: initial_state_def ZlogLevel_defs)
  fix cs :: "'a api_call list"
  have "g_lock (initial_state :: 'a world) = 0" by (simp add: initial_state_def)
  from run_lock_free [OF this, of ndebug cs]
  obtain r where r: "run ndebug cs (initial_state :: 'a world) = Some r" by blast
  from run_level [OF r] i1 i2
  have "ZLOG_TRACE \<le> g_level (world_of r) \<and> g_level (world_of r) \<le> ZLOG_FATAL" by simp
  with r show "\<exists>r. run ndebug cs (initial_state :: 'a world) = Some r
         \<and> ZLOG_TRACE \<le> g_level (world_of r) \<and> g_level (world_of r) \<le> ZLOG_FATAL"
    by blast
next
  fix s :: "'a world" and c r
  assume "ZLOG_TRACE \<le> g_level s \<and> g_level s \<le> ZLOG_FATAL \<and> exec ndebug c s = Some r"
  then show "ZLOG_TRACE \<le> g_level (world_of r)" using exec_level [of ndebug c s r] by simp
next
  fix s :: "'a world" and c r
  assume "ZLOG_TRACE \<le> g_level s \<and> g_level s \<le> ZLOG_FATAL \<and> exec ndebug c s = Some r"
  then show "g_level (world_of r) \<le> ZLOG_FATAL" using exec_level [of ndebug c s r] by simp
qed

theorem threshold_always_valid_witness:
  "exec False (Call_set_level 99)
     (\<lparr>g_lock = 0, g_output = None, g_level = ZLOG_FATAL, libc = []\<rparr> :: int list world)
     = Some (Returns \<lparr>g_lock = 0, g_output = None, g_level = ZLOG_INFO, libc = []\<rparr>)
   \<and> ZLOG_TRACE \<le> g_level (\<lparr>g_lock = 0, g_output = None, g_level = ZLOG_INFO, libc = []\<rparr>
        :: int list world)
   \<and> g_level (\<lparr>g_lock = 0, g_output = None, g_level = ZLOG_INFO, libc = []\<rparr>
        :: int list world) \<le> ZLOG_FATAL"
proof -
  let ?s = "\<lparr>g_lock = 0, g_output = None, g_level = ZLOG_FATAL, libc = []\<rparr> :: int list world"
  let ?s' = "\<lparr>g_lock = 0, g_output = None, g_level = ZLOG_INFO, libc = []\<rparr> :: int list world"
  have e: "exec False (Call_set_level 99) ?s = Some (Returns ?s')"
    by (simp add: zlog_set_level_free validate_level_def ZlogLevel_defs)
  have v: "ZLOG_TRACE \<le> g_level ?s \<and> g_level ?s \<le> ZLOG_FATAL"
    by (simp add: ZlogLevel_defs)
  from threshold_always_valid [where ?'a = "int list" and ndebug = False] v e
  have "ZLOG_TRACE \<le> g_level (world_of (Returns ?s'))
        \<and> g_level (world_of (Returns ?s')) \<le> ZLOG_FATAL"
    by blast
  with e show ?thesis by simp
qed

subsection \<open>C9: the lock is released on every path\<close>

text \<open>
  C9: started with the lock free, \<^verbatim>\<open>zlog_write\<close> (for any level) and each of the six
  emission functions come to an end with the lock free; in particular, when the
  check under the lock fails because the level is below the stored one,
  \<^verbatim>\<open>zlog_write\<close> returns the world as it found it, lock free, with nothing written.
\<close>

theorem emission_releases_lock:
  assumes "g_lock s = 0"
  shows "(\<exists>r. zlog_write ndebug level fmt args s = Some r \<and> g_lock (world_of r) = 0)
       \<and> (\<exists>r. emit e ndebug fmt args s = Some r \<and> g_lock (world_of r) = 0)
       \<and> (g_output s \<noteq> None \<and> level < g_level s \<longrightarrow>
            zlog_write ndebug level fmt args s = Some (Returns s))"
  using assms by (auto simp: emit_unfold zlog_write_free split: option.splits)

theorem emission_releases_lock_witness:
  "g_lock (\<lparr>g_lock = 0, g_output = Some Stderr, g_level = ZLOG_WARN, libc = []\<rparr>
             :: int list world) = 0
   \<and> zlog_write False ZLOG_INFO ''x'' []
        (\<lparr>g_lock = 0, g_output = Some Stderr, g_level = ZLOG_WARN, libc = []\<rparr> :: int list world)
       = Some (Returns \<lparr>g_lock = 0, g_output = Some Stderr, g_level = ZLOG_WARN, libc = []\<rparr>)
   \<and> (\<exists>r. emit Err False ''x'' []
        (\<lparr>g_lock = 0, g_output = Some Stderr, g_level = ZLOG_WARN, libc = []\<rparr> :: int list world)
       = Some r \<and> g_lock (world_of r) = 0)"
  using emission_releases_lock
    [of "\<lparr>g_lock = 0, g_output = Some Stderr, g_level = ZLOG_WARN, libc = []\<rparr> :: int list world"
        False ZLOG_INFO "''x''" "[]" Err]
  by (simp add: ZlogLevel_defs)

subsection \<open>C10: emission while the sink is absent\<close>

text \<open>
  C10 as stated fails in a build with assertions. After \<^verbatim>\<open>zlog_init(NULL, ZLOG_INFO)\<close>
  and \<^verbatim>\<open>zlog_shutdown()\<close> the sink is absent; \<^verbatim>\<open>zlog_fatal("boom")\<close> passes the
  first check, the \<^verbatim>\<open>assert\<close> of \<^verbatim>\<open>zlog_write\<close> fails, and its diagnostic (here a
  sample text) is written on \<^verbatim>\<open>stderr\<close>, which had received nothing before: not
  every stream receives zero bytes.
\<close>

theorem emission_without_sink_counterexample:
  "run False [Call_init None ZLOG_INFO, Call_shutdown, Call_emit Fatal ''boom'' []]
     (initial_state :: int list world)
     = Some (Aborts (initial_state\<lparr>libc := [Assert_fail]\<rparr>))
   \<and> bytes_written (\<lambda>fmt args. fmt) ''Assertion failed'' Stderr
        (libc (initial_state :: int list world)) = []
   \<and> bytes_written (\<lambda>fmt args. fmt) ''Assertion failed'' Stderr
        (libc ((initial_state :: int list world)\<lparr>libc := [Assert_fail]\<rparr>))
       = ''Assertion failed''"
  by (simp add: initial_state_def zlog_init_free zlog_shutdown_free validate_level_def
        zlog_fatal_def zlog_write_free ZlogLevel_defs)

text \<open>
  C10, amended: while \<^verbatim>\<open>g_output\<close> is \<^verbatim>\<open>NULL\<close> (as \<^verbatim>\<open>zlog_shutdown\<close> leaves
  it) and the lock is free, every emission function, whatever its severity, makes no
  \<^verbatim>\<open>vfprintf\<close> call and does not fall back to \<^verbatim>\<open>stderr\<close>. With assertions
  compiled out it returns with the world exactly as it was, so every stream receives
  zero bytes. With assertions enabled it returns in the same way when its severity is
  below the stored level, and otherwise aborts in \<^verbatim>\<open>assert\<close>: then the only bytes
  written are the diagnostic of \<^verbatim>\<open>assert\<close> on \<^verbatim>\<open>stderr\<close>, and every other stream
  receives none.
\<close>

theorem emission_without_sink:
  assumes "g_output s = None" and "g_lock s = 0"
  shows "emit e True fmt args s = Some (Returns s)
       \<and> emit e False fmt args s
           = Some (if severity e < g_level s then Returns s
                   else Aborts (s\<lparr>libc := libc s @ [Assert_fail]\<rparr>))
       \<and> (\<forall>f. bytes_written render diag f (libc s @ [Assert_fail])
                = bytes_written render diag f (libc s) @ (if f = Stderr then diag else []))"
  using assms by (simp add: emit_unfold zlog_write_free bytes_written_append)

theorem emission_without_sink_witness:
  "zlog_shutdown (\<lparr>g_lock = 0, g_output = Some Stderr, g_level = ZLOG_WARN, libc = []\<rparr>
        :: int list world)
     = Some \<lparr>g_lock = 0, g_output = None, g_level = ZLOG_WARN, libc = []\<rparr>
   \<and> emit Fatal True ''boom'' []
        (\<lparr>g_lock = 0, g_output = None, g_level = ZLOG_WARN, libc = []\<rparr> :: int list world)
     = Some (Returns \<lparr>g_lock = 0, g_output = None, g_level = ZLOG_WARN, libc = []\<rparr>)
   \<and> emit Info False ''quiet'' []
        (\<lparr>g_lock = 0, g_output = None, g_level = ZLOG_WARN, libc = []\<rparr> :: int list world)
     = Some (Returns \<lparr>g_lock = 0, g_output = None, g_level = ZLOG_WARN, libc = []\<rparr>)
   \<and> emit Fatal False ''boom'' []
        (\<lparr>g_lock = 0, g_output = None, g_level = ZLOG_WARN, libc = []\<rparr> :: int list world)
     = Some (Aborts \<lparr>g_lock = 0, g_output = None, g_level = ZLOG_WARN, libc = [Assert_fail]\<rparr>)
   \<and> bytes_written (\<lambda>fmt args. fmt) ''Assertion failed'' (Stream 1)
        [Assert_fail :: int list libc_call] = []"
  using
    emission_without_sink
      [of "\<lparr>g_lock = 0, g_output = None, g_level = ZLOG_WARN, libc = []\<rparr> :: int list world"
          Fatal "''boom''" "[]" "\<lambda>fmt args. fmt" "''Assertion failed''"]
    emission_without_sink
      [of "\<lparr>g_lock = 0, g_output = None, g_level = ZLOG_WARN, libc = []\<rparr> :: int list world"
          Info "''quiet''" "[]" "\<lambda>fmt args. fmt" "''Assertion failed''"]
  by (simp add: zlog_shutdown_free ZlogLevel_defs)

end
